theory Spec2Isabelle
  imports Main
begin

section \<open>Python values, exceptions and log records\<close>

text \<open>
  The notification module of W.I.L.L (\<^verbatim>\<open>will/userspace/notifications.py\<close>) is
  dynamically typed: the same attribute of a \<^verbatim>\<open>Notification\<close> can hold a string, a
  list, a timestamp or \<^verbatim>\<open>None\<close>, depending on what the caller passed. The values that
  reach these attributes are therefore one datatype. \<open>PRow\<close> is a database result row,
  which answers both attribute access (\<^verbatim>\<open>u.username\<close>) and item access
  (\<^verbatim>\<open>u["username"]\<close>); \<open>PObj\<close> is a plain object (attributes only) and \<open>PDict\<close> a
  dictionary (items only).
\<close>

datatype pyval =
    PNone
  | PStr string
  | PNum int
  | PList "pyval list"
  | PDict "(string \<times> pyval) list"
  | PObj "(string \<times> pyval) list"
  | PRow "(string \<times> pyval) list"
  | PUuid nat
  | PDatetime int

text \<open>
  Every exception of the model is a subclass of Python's \<^verbatim>\<open>Exception\<close>.
  \<open>External\<close> is an exception raised by a collaborator outside the module (the
  database session, the mail relay, the key store), with its message.
\<close>

datatype exn = AttributeError | TypeError | KeyError | External string

datatype level = INFO | ERROR

text \<open>A log record: level, format string, and what is formatted into it: values, or
  the \<^verbatim>\<open>args\<close> of a caught exception.\<close>

datatype log_arg = Value pyval | ExnArgs exn

datatype log_record = LogRecord level string "log_arg list"

text \<open>Python truthiness (\<^verbatim>\<open>if x:\<close>, \<^verbatim>\<open>not x\<close>).\<close>

fun truthy :: "pyval \<Rightarrow> bool" where
  "truthy PNone = False"
| "truthy (PStr s) = (s \<noteq> [])"
| "truthy (PNum n) = (n \<noteq> 0)"
| "truthy (PList l) = (l \<noteq> [])"
| "truthy (PDict d) = (d \<noteq> [])"
| "truthy (PObj a) = True"
| "truthy (PRow a) = True"
| "truthy (PUuid u) = True"
| "truthy (PDatetime t) = True"

text \<open>Whether a value can be a dictionary key: lists and dictionaries cannot.\<close>

fun hashable :: "pyval \<Rightarrow> bool" where
  "hashable (PList l) = False"
| "hashable (PDict d) = False"
| "hashable v = True"

text \<open>Item access \<^verbatim>\<open>v[k]\<close> with a string key.\<close>

fun py_getitem :: "pyval \<Rightarrow> string \<Rightarrow> exn + pyval" where
  "py_getitem (PDict d) k = (case map_of d k of None \<Rightarrow> Inl KeyError | Some v \<Rightarrow> Inr v)"
| "py_getitem (PRow d) k = (case map_of d k of None \<Rightarrow> Inl KeyError | Some v \<Rightarrow> Inr v)"
| "py_getitem v k = Inl TypeError"

text \<open>Attribute access \<^verbatim>\<open>v.k\<close>.\<close>

fun py_getattr :: "pyval \<Rightarrow> string \<Rightarrow> exn + pyval" where
  "py_getattr (PObj a) k = (case map_of a k of None \<Rightarrow> Inl AttributeError | Some v \<Rightarrow> Inr v)"
| "py_getattr (PRow a) k = (case map_of a k of None \<Rightarrow> Inl AttributeError | Some v \<Rightarrow> Inr v)"
| "py_getattr v k = Inl AttributeError"

text \<open>The test \<^verbatim>\<open>" " in v\<close>: substring for a string, membership for a list or a
  dictionary's keys, a \<^verbatim>\<open>TypeError\<close> for a value that is no container.\<close>

fun contains_space :: "pyval \<Rightarrow> exn + bool" where
  "contains_space (PStr s) = Inr (CHR '' '' \<in> set s)"
| "contains_space (PList l) = Inr (PStr '' '' \<in> set l)"
| "contains_space (PDict d) = Inr ('' '' \<in> set (map fst d))"
| "contains_space v = Inl TypeError"

text \<open>\<^verbatim>\<open>s.split(" ")\<close>: a cut at every single space, empty pieces kept.\<close>

fun split_sp :: "string \<Rightarrow> string list" where
  "split_sp [] = [[]]"
| "split_sp (c # cs) =
     (if c = CHR '' '' then [] # split_sp cs
      else (case split_sp cs of [] \<Rightarrow> [[c]] | w # ws \<Rightarrow> (c # w) # ws))"

fun py_split :: "pyval \<Rightarrow> exn + pyval list" where
  "py_split (PStr s) = Inr (map PStr (split_sp s))"
| "py_split v = Inl AttributeError"

text \<open>String concatenation \<^verbatim>\<open>"W.I.L.L - " + title\<close>: a string on the right, or a
  \<^verbatim>\<open>TypeError\<close>.\<close>

fun str_plus :: "string \<Rightarrow> pyval \<Rightarrow> exn + pyval" where
  "str_plus p (PStr t) = Inr (PStr (p @ t))"
| "str_plus p v = Inl TypeError"

section \<open>The collaborators outside the module\<close>

text \<open>
  \<^verbatim>\<open>will.tools\<close>, \<^verbatim>\<open>will.schema\<close>, \<^verbatim>\<open>requests\<close> and the database session factory are
  not part of the module. They are parameters of the model: \<open>ascii_encode\<close> is
  \<^verbatim>\<open>tools.ascii_encode\<close>, \<open>load_key\<close> is \<^verbatim>\<open>tools.load_key("mailgun", db, load_url=True)\<close>,
  \<open>post\<close> is \<^verbatim>\<open>requests.post(url, auth=("api", key), data=...)\<close>, and \<open>db_fault\<close> says
  which operation of a database session raises, and what.
\<close>

datatype db_op = OpenSession | Query | Add | Commit | Close

record env =
  ascii_encode :: "pyval \<Rightarrow> exn + pyval"
  load_key :: "pyval \<Rightarrow> exn + (pyval \<times> pyval)"
  post :: "pyval \<Rightarrow> pyval \<Rightarrow> (string \<times> pyval) list \<Rightarrow> exn + pyval"
  db_fault :: "db_op \<Rightarrow> exn option"

section \<open>Notification\<close>

text \<open>The attributes \<^verbatim>\<open>Notification.__init__\<close> sets; \<open>summary_attr\<close> is \<^verbatim>\<open>_summary\<close>.\<close>

record notification =
  title :: pyval
  message :: pyval
  scope :: string
  db :: pyval
  summary_attr :: pyval
  created :: pyval
  uid :: pyval
  trigger_time :: int
  user_data :: pyval

text \<open>
  \<^verbatim>\<open>Notification.__init__(message, title, trigger_time, scope, db, user_data,
  summary=None, uid=None, created=None)\<close>. \<open>now\<close> is what \<^verbatim>\<open>datetime.datetime.now()\<close>
  returns and \<open>fresh\<close> what \<^verbatim>\<open>uuid.uuid1()\<close> returns, should the constructor call them.
\<close>

definition Notification_init ::
  "env \<Rightarrow> int \<Rightarrow> nat \<Rightarrow> pyval \<Rightarrow> pyval \<Rightarrow> int \<Rightarrow> string \<Rightarrow> pyval \<Rightarrow> pyval \<Rightarrow>
     pyval \<Rightarrow> pyval \<Rightarrow> pyval \<Rightarrow> exn + notification" where
  "Notification_init ev now fresh message0 title0 trigger_time0 scope0 db0 user_data0
       summary0 uid0 created0 =
     (case str_plus ''W.I.L.L - '' title0 of
        Inl e \<Rightarrow> Inl e
      | Inr prefixed \<Rightarrow>
     (case ascii_encode ev prefixed of
        Inl e \<Rightarrow> Inl e
      | Inr t \<Rightarrow>
     (case ascii_encode ev message0 of
        Inl e \<Rightarrow> Inl e
      | Inr m \<Rightarrow>
          Inr \<lparr> title = t, message = m, scope = scope0, db = db0,
                summary_attr = summary0,
                created = (if truthy created0 then created0 else PDatetime now),
                uid = (if truthy uid0 then uid0 else PUuid fresh),
                trigger_time = trigger_time0, user_data = user_data0 \<rparr>)))"

text \<open>The property \<^verbatim>\<open>time_reached\<close>, at the clock reading \<open>now\<close>.\<close>

definition time_reached :: "int \<Rightarrow> notification \<Rightarrow> bool" where
  "time_reached now n = (trigger_time n \<le> now)"

text \<open>
  The value the \<^verbatim>\<open>summary\<close> property assigns to \<^verbatim>\<open>_summary\<close> before encoding it
  (lines 93 to 100): the slice \<^verbatim>\<open>message_words[0:4]\<close>, a list, when the message splits
  into five pieces or more, the message itself otherwise.
\<close>

definition summary_words :: "pyval \<Rightarrow> exn + pyval" where
  "summary_words m =
     (case contains_space m of
        Inl e \<Rightarrow> Inl e
      | Inr False \<Rightarrow> Inr m
      | Inr True \<Rightarrow>
          (case py_split m of
             Inl e \<Rightarrow> Inl e
           | Inr message_words \<Rightarrow>
               if 5 \<le> length message_words then Inr (PList (take 4 message_words))
               else Inr m))"

text \<open>
  The property \<^verbatim>\<open>summary\<close>. Reading it can assign \<^verbatim>\<open>_summary\<close>, so the notification
  is returned with the result. When \<^verbatim>\<open>tools.ascii_encode\<close> raises, the assignment of
  line 96, 98 or 100 has already happened.
\<close>

definition summary :: "env \<Rightarrow> notification \<Rightarrow> (exn + pyval) \<times> notification" where
  "summary ev n =
     (if \<not> truthy (summary_attr n) then
        (case summary_words (message n) of
           Inl e \<Rightarrow> (Inl e, n)
         | Inr w \<Rightarrow>
             (case ascii_encode ev w of
                Inl e \<Rightarrow> (Inl e, n\<lparr>summary_attr := w\<rparr>)
              | Inr s \<Rightarrow> (Inr s, n\<lparr>summary_attr := s\<rparr>)))
      else (Inr (summary_attr n), n))"

text \<open>
  \<^verbatim>\<open>Notification.email\<close>: the key and the relay URL, the recipient from
  \<^verbatim>\<open>user_data\<close>, then the POST whose subject is the summary. The recipient
  \<^verbatim>\<open>"{0} {1} <{2}>".format(first_name, last_name, email)\<close> is kept as its three parts.
\<close>

definition email :: "env \<Rightarrow> notification \<Rightarrow> (exn + pyval) \<times> notification" where
  "email ev n =
     (case load_key ev (db n) of
        Inl e \<Rightarrow> (Inl e, n)
      | Inr (mailgun_key, mailgun_url) \<Rightarrow>
     (case py_getattr (user_data n) ''settings'' of
        Inl e \<Rightarrow> (Inl e, n)
      | Inr settings \<Rightarrow>
     (case py_getitem settings ''email'' of
        Inl e \<Rightarrow> (Inl e, n)
      | Inr address \<Rightarrow>
     (case py_getattr (user_data n) ''first_name'' of
        Inl e \<Rightarrow> (Inl e, n)
      | Inr first_name \<Rightarrow>
     (case py_getattr (user_data n) ''last_name'' of
        Inl e \<Rightarrow> (Inl e, n)
      | Inr last_name \<Rightarrow>
     (case summary ev n of
        (Inl e, n1) \<Rightarrow> (Inl e, n1)
      | (Inr subject, n1) \<Rightarrow>
          (post ev mailgun_url (PList [PStr ''api'', mailgun_key])
             [(''from'', PStr ''will <postmaster@willbeddow.com>''),
              (''to'', PList [first_name, last_name, address]),
              (''subject'', subject),
              (''text'', message n1)], n1)))))))"

text \<open>
  \<^verbatim>\<open>Notification.send\<close>: the log line reads \<^verbatim>\<open>user_data["username"]\<close> first; the
  mapping from scope to channel has the one key \<^verbatim>\<open>"email"\<close>. The result is the
  exception that left \<^verbatim>\<open>send\<close> (if any), the notification, and the records logged.
\<close>

definition send :: "env \<Rightarrow> notification \<Rightarrow> exn option \<times> notification \<times> log_record list" where
  "send ev n =
     (case py_getitem (user_data n) ''username'' of
        Inl e \<Rightarrow> (Some e, n, [])
      | Inr username \<Rightarrow>
          (let info = LogRecord INFO ''Sending notification to user {}'' [Value username];
               not_method = scope n
           in if not_method \<in> set [''email''] then
                (case email ev n of
                   (Inl e, n1) \<Rightarrow> (Some e, n1, [info])
                 | (Inr r, n1) \<Rightarrow> (None, n1, [info]))
              else
                (None, n,
                 [info,
                  LogRecord ERROR
                    ''Couldn't find a notification method for notification scope {}''
                    [Value (PStr not_method)]])))"

section \<open>Durable storage\<close>

text \<open>
  A row of \<^verbatim>\<open>NotificationStore\<close>, with the columns \<^verbatim>\<open>notify\<close> writes and
  \<^verbatim>\<open>_pull_notificatons\<close> reads.
\<close>

record notification_store =
  col_uid :: pyval
  col_message :: pyval
  col_title :: pyval
  col_trigger_time :: int
  col_scope :: string
  col_created :: pyval
  col_summary :: pyval
  col_user_id :: pyval

text \<open>The database: the committed rows, and the sessions opened and not yet closed.\<close>

record database =
  rows :: "notification_store list"
  open_sessions :: nat

section \<open>NotificationHandler\<close>

text \<open>
  \<^verbatim>\<open>_notifications\<close> is a Python dictionary; it is an association list here, in
  insertion order. \<open>dict_update\<close> is \<^verbatim>\<open>d.update({k: v})\<close> and \<open>dict_del\<close> is
  \<^verbatim>\<open>del d[k]\<close> for a key that is present.
\<close>

fun dict_update :: "'k \<Rightarrow> 'v \<Rightarrow> ('k \<times> 'v) list \<Rightarrow> ('k \<times> 'v) list" where
  "dict_update k v [] = [(k, v)]"
| "dict_update k v (p # ps) = (if fst p = k then (k, v) # ps else p # dict_update k v ps)"

definition dict_del :: "'k \<Rightarrow> ('k \<times> 'v) list \<Rightarrow> ('k \<times> 'v) list" where
  "dict_del k d = filter (\<lambda>p. fst p \<noteq> k) d"

text \<open>
  The state of a handler: the attributes \<^verbatim>\<open>running\<close> and \<^verbatim>\<open>_notifications\<close> (the
  live set), the database behind \<^verbatim>\<open>self.db\<close>, and the records logged so far. The
  class sets no other attribute; in particular it has no attribute \<^verbatim>\<open>graph\<close>.
\<close>

record handler =
  running :: bool
  notifications :: "(pyval \<times> notification) list"
  store :: database
  logged :: "log_record list"

definition open_session :: "handler \<Rightarrow> handler" where
  "open_session h = h\<lparr>store := (store h)\<lparr>open_sessions := Suc (open_sessions (store h))\<rparr>\<rparr>"

definition close_session :: "handler \<Rightarrow> handler" where
  "close_session h = h\<lparr>store := (store h)\<lparr>open_sessions := open_sessions (store h) - 1\<rparr>\<rparr>"

definition commit_rows :: "notification_store list \<Rightarrow> handler \<Rightarrow> handler" where
  "commit_rows pending h = h\<lparr>store := (store h)\<lparr>rows := rows (store h) @ pending\<rparr>\<rparr>"

definition emit :: "log_record list \<Rightarrow> handler \<Rightarrow> handler" where
  "emit rs h = h\<lparr>logged := logged h @ rs\<rparr>"

text \<open>
  \<^verbatim>\<open>NotificationHandler.notify\<close>, called when \<^verbatim>\<open>time.time()\<close> reads \<open>now\<close>. The live
  set holds the notification object itself, so the assignment that reading
  \<^verbatim>\<open>not_object.summary\<close> makes shows in the live entry as well. A uid that cannot
  be a dictionary key raises at the first statement. The result is the exception that
  left \<^verbatim>\<open>notify\<close> (if any) and the handler's state at that moment.
\<close>

definition notify :: "env \<Rightarrow> int \<Rightarrow> notification \<Rightarrow> handler \<Rightarrow> exn option \<times> handler" where
  "notify ev now not_object h =
     (let not_uid = uid not_object;
          h1 = h\<lparr>notifications := dict_update not_uid not_object (notifications h)\<rparr>
      in if \<not> hashable not_uid then (Some TypeError, h)
         else if 300 < trigger_time not_object - now then
           (case db_fault ev OpenSession of
              Some e \<Rightarrow> (Some e, h1)
            | None \<Rightarrow>
           (let h2 = open_session h1 in
            case summary ev not_object of
              (Inl e, n1) \<Rightarrow>
                (Some e, h2\<lparr>notifications := dict_update not_uid n1 (notifications h2)\<rparr>)
            | (Inr s, n1) \<Rightarrow>
           (let h3 = h2\<lparr>notifications := dict_update not_uid n1 (notifications h2)\<rparr> in
            case py_getattr (user_data n1) ''username'' of
              Inl e \<Rightarrow> (Some e, h3)
            | Inr username \<Rightarrow>
           (let notification_store =
                  \<lparr> col_uid = not_uid, col_message = message n1, col_title = title n1,
                    col_trigger_time = trigger_time n1, col_scope = scope n1,
                    col_created = created n1, col_summary = s, col_user_id = username \<rparr>
            in case db_fault ev Add of
              Some e \<Rightarrow> (Some e, h3)
            | None \<Rightarrow>
           (case db_fault ev Commit of
              Some e \<Rightarrow> (Some e, h3)
            | None \<Rightarrow>
           (let h4 = commit_rows [notification_store] h3 in
            case db_fault ev Close of
              Some e \<Rightarrow> (Some e, h4)
            | None \<Rightarrow> (None, close_session h4)))))))
         else (None, h1))"

text \<open>
  The body of the \<^verbatim>\<open>for\<close> loop of \<^verbatim>\<open>_pull_notificatons\<close> for one row. The
  constructor is called with eight positional arguments, so after \<^verbatim>\<open>scope\<close> they
  land on the parameters \<^verbatim>\<open>db, user_data, summary, uid\<close> in this order, and
  \<^verbatim>\<open>created\<close> keeps its default \<^verbatim>\<open>None\<close>.
\<close>

definition pull_row ::
  "env \<Rightarrow> int \<Rightarrow> nat \<Rightarrow> notification_store \<Rightarrow> handler \<Rightarrow> exn option \<times> handler" where
  "pull_row ev now fresh notification h =
     (let user_set = col_user_id notification;
          datetime_instance = col_created notification
      in case Notification_init ev now fresh
                (col_message notification)
                (col_title notification)
                (col_trigger_time notification)
                (col_scope notification)
                user_set
                (col_summary notification)
                (col_uid notification)
                datetime_instance
                PNone of
           Inl e \<Rightarrow> (Some e, h)
         | Inr not_class \<Rightarrow>
             if \<not> hashable (col_uid notification) then (Some TypeError, h)
             else (None, h\<lparr>notifications :=
                             dict_update (col_uid notification) not_class (notifications h)\<rparr>))"

text \<open>The \<^verbatim>\<open>for\<close> loop over the rows; \<open>clock k\<close> and \<open>fresh k\<close> are what
  \<^verbatim>\<open>datetime.datetime.now()\<close> and \<^verbatim>\<open>uuid.uuid1()\<close> return at the \<open>k\<close>-th row.\<close>

fun pull_rows ::
  "env \<Rightarrow> (nat \<Rightarrow> int) \<Rightarrow> (nat \<Rightarrow> nat) \<Rightarrow> nat \<Rightarrow> notification_store list \<Rightarrow> handler \<Rightarrow>
     exn option \<times> handler" where
  "pull_rows ev clock fresh k [] h = (None, h)"
| "pull_rows ev clock fresh k (r # rs) h =
     (case pull_row ev (clock k) (fresh k) r h of
        (Some e, h1) \<Rightarrow> (Some e, h1)
      | (None, h1) \<Rightarrow> pull_rows ev clock fresh (Suc k) rs h1)"

text \<open>\<^verbatim>\<open>NotificationHandler._pull_notificatons\<close>.\<close>

definition pull_notificatons ::
  "env \<Rightarrow> (nat \<Rightarrow> int) \<Rightarrow> (nat \<Rightarrow> nat) \<Rightarrow> handler \<Rightarrow> exn option \<times> handler" where
  "pull_notificatons ev clock fresh h =
     (case db_fault ev OpenSession of
        Some e \<Rightarrow> (Some e, h)
      | None \<Rightarrow>
     (let h1 = open_session h in
      case db_fault ev Query of
        Some e \<Rightarrow> (Some e, h1)
      | None \<Rightarrow>
     (let found = rows (store h1) in
      case (if found \<noteq> [] then pull_rows ev clock fresh 0 found h1
            else (None, emit [LogRecord INFO ''No notifications found from DB'' []] h1)) of
        (Some e, h2) \<Rightarrow> (Some e, h2)
      | (None, h2) \<Rightarrow>
     (case db_fault ev Close of
        Some e \<Rightarrow> (Some e, h2)
      | None \<Rightarrow> (None, close_session h2)))))"

text \<open>
  The body of the \<^verbatim>\<open>for\<close> loop of \<^verbatim>\<open>_wait_notifications\<close> for one entry of the live
  set, when \<^verbatim>\<open>time.time()\<close> reads \<open>now\<close>. The first log line reads
  \<^verbatim>\<open>user_data["username"]\<close> outside the \<^verbatim>\<open>try\<close>. An exception of \<^verbatim>\<open>send\<close> is
  caught and logged; what \<^verbatim>\<open>send\<close> assigned to the notification object leaves the
  live set with the entry. After \<^verbatim>\<open>del self._notifications[not_uid]\<close> the body evaluates
  \<^verbatim>\<open>self.graph\<close>, an attribute the handler does not have: the \<^verbatim>\<open>AttributeError\<close>
  leaves the body before any statement touches the database.
\<close>

definition deliver :: "env \<Rightarrow> int \<Rightarrow> pyval \<times> notification \<Rightarrow> handler \<Rightarrow> exn option \<times> handler" where
  "deliver ev now entry h =
     (case entry of (not_uid, notification) \<Rightarrow>
        if time_reached now notification then
          (case py_getitem (user_data notification) ''username'' of
             Inl e \<Rightarrow> (Some e, h)
           | Inr username \<Rightarrow>
               (let h1 = emit [LogRecord INFO ''Sending notification for user {}'' [Value username]] h in
                case send ev notification of
                  (r, sent_object, sent) \<Rightarrow>
               (let h2 = emit sent h1;
                    h3 = (case r of
                            None \<Rightarrow> h2
                          | Some e \<Rightarrow>
                              emit [LogRecord ERROR
                                ''Couldn't send notification to user {0}. Send method raised error with args {1}''
                                [Value username, ExnArgs e]] h2);
                    h4 = h3\<lparr>notifications := dict_del not_uid (notifications h3)\<rparr>
                in (Some AttributeError, h4))))
        else (None, h))"

text \<open>The \<^verbatim>\<open>for\<close> loop over \<^verbatim>\<open>self._notifications.items()\<close>; \<open>clock k\<close> is the
  reading of \<^verbatim>\<open>time.time()\<close> at the \<open>k\<close>-th entry. An exception ends the loop.\<close>

fun scan ::
  "env \<Rightarrow> (nat \<Rightarrow> int) \<Rightarrow> nat \<Rightarrow> (pyval \<times> notification) list \<Rightarrow> handler \<Rightarrow> exn option \<times> handler" where
  "scan ev clock k [] h = (None, h)"
| "scan ev clock k (entry # entries) h =
     (case deliver ev (clock k) entry h of
        (Some e, h1) \<Rightarrow> (Some e, h1)
      | (None, h1) \<Rightarrow> scan ev clock (Suc k) entries h1)"

text \<open>
  The delivery thread \<^verbatim>\<open>_wait_notifications\<close>: it is still running (the fuel of the
  model ran out), it returned because \<^verbatim>\<open>running\<close> is false, or an exception that
  nothing handles ended it.
\<close>

datatype thread = Running | Returned | Died exn

text \<open>The \<^verbatim>\<open>while self.running\<close> loop, for at most \<open>fuel\<close> iterations; \<open>clock i k\<close>
  is the reading of \<^verbatim>\<open>time.time()\<close> in iteration \<open>i\<close> at the \<open>k\<close>-th live entry.\<close>

fun wait_notifications ::
  "env \<Rightarrow> (nat \<Rightarrow> nat \<Rightarrow> int) \<Rightarrow> nat \<Rightarrow> nat \<Rightarrow> handler \<Rightarrow> thread \<times> handler" where
  "wait_notifications ev clock i 0 h = (Running, h)"
| "wait_notifications ev clock i (Suc fuel) h =
     (if running h then
        (if notifications h \<noteq> [] then
           (case scan ev (clock i) 0 (notifications h) h of
              (Some e, h1) \<Rightarrow> (Died e, h1)
            | (None, h1) \<Rightarrow> wait_notifications ev clock (Suc i) fuel h1)
         else wait_notifications ev clock (Suc i) fuel h)
      else (Returned, h))"

text \<open>
  \<^verbatim>\<open>NotificationHandler.__init__\<close> up to the start of the thread, for the first
  handler of a process: the class attributes \<^verbatim>\<open>running = True\<close> and
  \<^verbatim>\<open>_notifications = {}\<close>, then the rows of the database.
\<close>

definition handler_init ::
  "env \<Rightarrow> (nat \<Rightarrow> int) \<Rightarrow> (nat \<Rightarrow> nat) \<Rightarrow> database \<Rightarrow> exn option \<times> handler" where
  "handler_init ev clock fresh d =
     pull_notificatons ev clock fresh
       \<lparr> running = True, notifications = [], store = d, logged = [] \<rparr>"

section \<open>Repeated reads, and sample collaborators\<close>

text \<open>\<open>k\<close> successive reads of the \<^verbatim>\<open>summary\<close> property of one notification object:
  the results in order, and the object after the last read.\<close>

fun read_summary :: "env \<Rightarrow> nat \<Rightarrow> notification \<Rightarrow> (exn + pyval) list \<times> notification" where
  "read_summary ev 0 n = ([], n)"
| "read_summary ev (Suc k) n =
     (case summary ev n of
        (r, n1) \<Rightarrow> (case read_summary ev k n1 of (rs, n2) \<Rightarrow> (r # rs, n2)))"

text \<open>
  The property \<^verbatim>\<open>summary\<close> once more, with a mark beside its result: whether the
  read entered the branch of line 91 (\<^verbatim>\<open>if not self._summary\<close>) and computed the
  summary, or returned the cached value as it found it.
\<close>

definition summary_traced :: "env \<Rightarrow> notification \<Rightarrow> bool \<times> (exn + pyval) \<times> notification" where
  "summary_traced ev n =
     (if \<not> truthy (summary_attr n) then
        (case summary_words (message n) of
           Inl e \<Rightarrow> (True, Inl e, n)
         | Inr w \<Rightarrow>
             (case ascii_encode ev w of
                Inl e \<Rightarrow> (True, Inl e, n\<lparr>summary_attr := w\<rparr>)
              | Inr s \<Rightarrow> (True, Inr s, n\<lparr>summary_attr := s\<rparr>)))
      else (False, Inr (summary_attr n), n))"

text \<open>How many of \<open>k\<close> successive reads of one notification object computed the
  summary.\<close>

fun count_computed :: "env \<Rightarrow> nat \<Rightarrow> notification \<Rightarrow> nat" where
  "count_computed ev 0 n = 0"
| "count_computed ev (Suc k) n =
     (case summary_traced ev n of
        (computed, r, n1) \<Rightarrow> (if computed then 1 else 0) + count_computed ev k n1)"

text \<open>A character of the ASCII range: the top bit of the byte is clear.\<close>

definition is_ascii :: "char \<Rightarrow> bool" where
  "is_ascii c = (\<not> digit7 c)"

text \<open>
  Modelled from the spec: \<^verbatim>\<open>tools.ascii_encode\<close> is not among the sources. The
  spec says that text fields are normalised to a safe transport encoding, and the
  source's comment that they are decoded into ASCII. \<open>encode_text f\<close> keeps every ASCII
  character of a string and puts \<open>f c\<close> in the place of any other character \<open>c\<close>
  (nothing, a question mark, an escape sequence). A string is a list of bytes here, so
  a character beyond ASCII is one or more bytes with the top bit set.
\<close>

definition encode_text :: "(char \<Rightarrow> string) \<Rightarrow> string \<Rightarrow> string" where
  "encode_text f s = concat (map (\<lambda>c. if is_ascii c then [c] else f c) s)"

text \<open>
  Modelled from the spec: an instance of \<^verbatim>\<open>tools.ascii_encode\<close> that drops what is
  not ASCII, and raises for a value that is not a string, as \<^verbatim>\<open>x.encode\<close> would.
\<close>

fun ascii_ignore :: "pyval \<Rightarrow> exn + pyval" where
  "ascii_ignore (PStr s) = Inr (PStr (encode_text (\<lambda>c. []) s))"
| "ascii_ignore v = Inl AttributeError"

text \<open>Collaborators that all answer: the key store, the mail relay and the database.\<close>

definition relay_env :: env where
  "relay_env =
     \<lparr> ascii_encode = ascii_ignore,
       load_key = (\<lambda>d. Inr (PStr ''key'', PStr ''https://relay.example/messages'')),
       post = (\<lambda>url auth data. Inr (PNum 200)),
       db_fault = (\<lambda>op. None) \<rparr>"

text \<open>A user record that answers attribute and item access.\<close>

definition will_user :: pyval where
  "will_user =
     PRow [(''username'', PStr ''will''), (''first_name'', PStr ''Will''),
           (''last_name'', PStr ''Beddow''),
           (''settings'', PDict [(''email'', PStr ''will@example.com'')])]"

text \<open>The reminder of the spec's scenario, as its constructor leaves it under
  \<open>relay_env\<close>: created at 1000, due at \<open>due\<close>, with uid 7.\<close>

definition reminder :: "int \<Rightarrow> string \<Rightarrow> notification" where
  "reminder due sc =
     \<lparr> title = PStr ''W.I.L.L - Reminder'',
       message = PStr ''Hello world, this is a test message'',
       scope = sc, db = PNone, summary_attr = PNone, created = PDatetime 1000,
       uid = PUuid 7, trigger_time = due, user_data = will_user \<rparr>"

definition empty_handler :: handler where
  "empty_handler =
     \<lparr> running = True, notifications = [],
       store = \<lparr> rows = [], open_sessions = 0 \<rparr>, logged = [] \<rparr>"

text \<open>The same reminder with a short message.\<close>

definition short_reminder :: "int \<Rightarrow> string \<Rightarrow> notification" where
  "short_reminder due sc = (reminder due sc)\<lparr>message := PStr ''Call mum''\<rparr>"

text \<open>The row \<^verbatim>\<open>notify\<close> writes for \<open>short_reminder 1400 ''email''\<close>.\<close>

definition stored_row :: notification_store where
  "stored_row =
     \<lparr> col_uid = PUuid 7, col_message = PStr ''Call mum'',
       col_title = PStr ''W.I.L.L - Reminder'', col_trigger_time = 1400,
       col_scope = ''email'', col_created = PDatetime 1000,
       col_summary = PStr ''Call mum'', col_user_id = PStr ''will'' \<rparr>"

text \<open>Collaborators as in \<open>relay_env\<close>, with one database operation that raises.\<close>

definition failing_env :: "db_op \<Rightarrow> env" where
  "failing_env bad =
     relay_env\<lparr>db_fault := (\<lambda>op. if op = bad then Some (External ''database is down'') else None)\<rparr>"

text \<open>Collaborators as in \<open>relay_env\<close>, with a mail relay that refuses the request.\<close>

definition relay_down_env :: env where
  "relay_down_env = relay_env\<lparr>post := (\<lambda>url auth data. Inl (External ''connection refused''))\<rparr>"

text \<open>The handler after \<^verbatim>\<open>notify\<close> has registered and persisted
  \<open>short_reminder 1400 ''email''\<close>.\<close>

definition busy_handler :: handler where
  "busy_handler =
     empty_handler
       \<lparr>notifications :=
          [(PUuid 7, (short_reminder 1400 ''email'')\<lparr>summary_attr := PStr ''Call mum''\<rparr>)],
        store := \<lparr>rows = [stored_row], open_sessions = 0\<rparr>\<rparr>"

text \<open>The same reminder with an empty message.\<close>

definition blank_reminder :: "int \<Rightarrow> string \<Rightarrow> notification" where
  "blank_reminder due sc = (reminder due sc)\<lparr>message := PStr []\<rparr>"

text \<open>A reminder with a uid of its own, due soon, and a handler that holds it next to
  the entry of \<open>busy_handler\<close>.\<close>

definition other_reminder :: notification where
  "other_reminder = (short_reminder 1200 ''email'')\<lparr>uid := PUuid 8\<rparr>"

definition crowded_handler :: handler where
  "crowded_handler =
     busy_handler\<lparr>notifications := notifications busy_handler @ [(PUuid 8, other_reminder)]\<rparr>"

section \<open>The summary property\<close>

lemma summary_again:
  assumes "fst (summary ev n) = Inr v"
  shows "summary ev (snd (summary ev n)) = (Inr v, snd (summary ev n))"
  using assms by (auto simp: summary_def split: if_splits sum.splits)

text \<open>The marked property is the property, with the mark of line 91 beside it.\<close>

lemma summary_traced_summary: "snd (summary_traced ev n) = summary ev n"
  by (simp add: summary_traced_def summary_def split: sum.splits)

lemma traced_step:
  "summary_traced ev n = (\<not> truthy (summary_attr n), fst (summary ev n), snd (summary ev n))"
  by (simp add: summary_traced_def summary_def split: sum.splits)

lemma cached_read:
  assumes "truthy (summary_attr n)"
  shows "summary ev n = (Inr (summary_attr n), n)"
  using assms by (simp add: summary_def)

lemma cached_reads:
  assumes "truthy (summary_attr n)"
  shows "read_summary ev k n = (replicate k (Inr (summary_attr n)), n)"
  by (induction k) (simp_all add: cached_read [OF assms])

lemma cached_count:
  assumes "truthy (summary_attr n)"
  shows "count_computed ev k n = 0"
  using assms by (induction k) (simp_all add: summary_traced_def)

lemma first_read_cache:
  assumes "fst (summary ev n) = Inr v"
  shows "summary_attr (snd (summary ev n)) = v"
  using assms by (auto simp: summary_def split: if_splits sum.splits)

lemma count_le_one:
  assumes "fst (summary ev n) = Inr v" and "truthy v"
  shows "count_computed ev k n \<le> 1"
proof (cases k)
  case 0
  then show ?thesis by simp
next
  case (Suc j)
  have "truthy (summary_attr (snd (summary ev n)))"
    using first_read_cache [OF assms(1)] assms(2) by simp
  from cached_count [OF this, of ev j] Suc show ?thesis
    by (simp add: traced_step split_beta)
qed

lemma count_every_read:
  assumes "fst (summary ev n) = Inr v" and "\<not> truthy v"
  shows "count_computed ev k n = k"
  using assms
proof (induction k arbitrary: n)
  case 0
  then show ?case by simp
next
  case (Suc k)
  have falsy: "\<not> truthy (summary_attr n)"
    using Suc.prems by (auto simp: summary_def split: if_splits)
  have "fst (summary ev (snd (summary ev n))) = Inr v"
    using summary_again [OF Suc.prems(1)] by simp
  from Suc.IH [OF this Suc.prems(2)] falsy show ?case
    by (simp add: traced_step split_beta)
qed

text \<open>
  C8, as the claim states it, fails. The cache is tested by truthiness
  (\<^verbatim>\<open>if not self._summary\<close>), so a summary that is falsy is computed again by every
  read: two reads of a reminder with an empty message compute twice, each returning
  the empty string. And under an encoder that accepts strings only, the first read of
  the seven-word reminder raises and the second returns the list that line 96 left
  in \<^verbatim>\<open>_summary\<close>: the two reads do not agree.
\<close>

theorem summary_computed_again_counterexample:
  "count_computed relay_env (Suc (Suc 0)) (blank_reminder 1400 ''email'') = 2
   \<and> fst (summary relay_env (blank_reminder 1400 ''email'')) = Inr (PStr [])
   \<and> fst (summary relay_env (snd (summary relay_env (blank_reminder 1400 ''email''))))
       = Inr (PStr [])
   \<and> fst (summary relay_env (reminder 1400 ''email'')) = Inl AttributeError
   \<and> fst (summary relay_env (snd (summary relay_env (reminder 1400 ''email''))))
       = Inr (PList [PStr ''Hello'', PStr ''world,'', PStr ''this'', PStr ''is''])"
  by (simp add: summary_traced_def summary_def summary_words_def blank_reminder_def reminder_def
      relay_env_def encode_text_def)

text \<open>
  C8, amended. Once a read of \<^verbatim>\<open>summary\<close> has returned a value \<open>v\<close>, every later
  read of the same notification returns \<open>v\<close> again, however many reads follow, and
  none of them changes the notification. When \<open>v\<close> is truthy (a non-empty string),
  the summary is computed at most once over any number of reads, and the later reads
  compute nothing: they return the cached \<open>v\<close> whatever the encoder does and whatever
  the message has become by then. When \<open>v\<close> is falsy (the empty string), every read
  computes it again. What the reads return after a read that raised is left open.
\<close>

theorem summary_fixed_after_first_read:
  assumes "fst (summary ev n) = Inr v"
  shows "read_summary ev k (snd (summary ev n)) = (replicate k (Inr v), snd (summary ev n))
     \<and> (truthy v \<longrightarrow>
          count_computed ev k n \<le> 1
          \<and> count_computed ev' k ((snd (summary ev n))\<lparr>message := m'\<rparr>) = 0
          \<and> read_summary ev' k ((snd (summary ev n))\<lparr>message := m'\<rparr>)
              = (replicate k (Inr v), (snd (summary ev n))\<lparr>message := m'\<rparr>))
     \<and> (\<not> truthy v \<longrightarrow> count_computed ev k n = k)"
proof (intro conjI impI)
  show "read_summary ev k (snd (summary ev n)) = (replicate k (Inr v), snd (summary ev n))"
    by (induction k) (simp_all add: summary_again [OF assms])
next
  assume t: "truthy v"
  show "count_computed ev k n \<le> 1"
    by (rule count_le_one [OF assms t])
  let ?n = "(snd (summary ev n))\<lparr>message := m'\<rparr>"
  have c: "summary_attr ?n = v"
    using first_read_cache [OF assms] by simp
  with t have tc: "truthy (summary_attr ?n)" by simp
  show "count_computed ev' k ?n = 0"
    by (rule cached_count [OF tc])
  show "read_summary ev' k ?n = (replicate k (Inr v), ?n)"
    using cached_reads [OF tc, of ev' k] c by simp
next
  assume "\<not> truthy v"
  then show "count_computed ev k n = k"
    by (rule count_every_read [OF assms])
qed

theorem summary_fixed_after_first_read_witness:
  "fst (summary relay_env (short_reminder 1400 ''email'')) = Inr (PStr ''Call mum'')
   \<and> truthy (PStr ''Call mum'')
   \<and> read_summary relay_env 3 (snd (summary relay_env (short_reminder 1400 ''email'')))
       = ([Inr (PStr ''Call mum''), Inr (PStr ''Call mum''), Inr (PStr ''Call mum'')],
          (short_reminder 1400 ''email'')\<lparr>summary_attr := PStr ''Call mum''\<rparr>)
   \<and> count_computed relay_env 3 (short_reminder 1400 ''email'') \<le> 1
   \<and> count_computed relay_down_env 3
        ((short_reminder 1400 ''email'')
           \<lparr>summary_attr := PStr ''Call mum'', message := PStr ''Call dad''\<rparr>) = 0
   \<and> read_summary relay_down_env 3
        ((short_reminder 1400 ''email'')
           \<lparr>summary_attr := PStr ''Call mum'', message := PStr ''Call dad''\<rparr>)
       = ([Inr (PStr ''Call mum''), Inr (PStr ''Call mum''), Inr (PStr ''Call mum'')],
          (short_reminder 1400 ''email'')
            \<lparr>summary_attr := PStr ''Call mum'', message := PStr ''Call dad''\<rparr>)
   \<and> fst (summary relay_env (blank_reminder 1400 ''email'')) = Inr (PStr [])
   \<and> \<not> truthy (PStr [])
   \<and> read_summary relay_env 3 (snd (summary relay_env (blank_reminder 1400 ''email'')))
       = ([Inr (PStr []), Inr (PStr []), Inr (PStr [])],
          (blank_reminder 1400 ''email'')\<lparr>summary_attr := PStr []\<rparr>)
   \<and> count_computed relay_env 3 (blank_reminder 1400 ''email'') = 3"
proof -
  let ?n = "short_reminder 1400 ''email''"
  let ?b = "blank_reminder 1400 ''email''"
  have first: "summary relay_env ?n = (Inr (PStr ''Call mum''), ?n\<lparr>summary_attr := PStr ''Call mum''\<rparr>)"
    by (simp add: summary_def summary_words_def short_reminder_def reminder_def relay_env_def
        encode_text_def is_ascii_def)
  then have h: "fst (summary relay_env ?n) = Inr (PStr ''Call mum'')"
    by simp
  have blank: "summary relay_env ?b = (Inr (PStr []), ?b\<lparr>summary_attr := PStr []\<rparr>)"
    by (simp add: summary_def summary_words_def blank_reminder_def reminder_def relay_env_def
        encode_text_def)
  then have g: "fst (summary relay_env ?b) = Inr (PStr [])"
    by simp
  have t: "truthy (PStr ''Call mum'')" and f: "\<not> truthy (PStr [])"
    by simp_all
  from summary_fixed_after_first_read
    [OF h, where k = 3 and ev' = relay_down_env and m' = "PStr ''Call dad''"] t first
  have a: "read_summary relay_env 3 (?n\<lparr>summary_attr := PStr ''Call mum''\<rparr>)
       = ([Inr (PStr ''Call mum''), Inr (PStr ''Call mum''), Inr (PStr ''Call mum'')],
          ?n\<lparr>summary_attr := PStr ''Call mum''\<rparr>)
     \<and> count_computed relay_env 3 ?n \<le> 1
     \<and> count_computed relay_down_env 3
          (?n\<lparr>summary_attr := PStr ''Call mum'', message := PStr ''Call dad''\<rparr>) = 0
     \<and> read_summary relay_down_env 3
          (?n\<lparr>summary_attr := PStr ''Call mum'', message := PStr ''Call dad''\<rparr>)
       = ([Inr (PStr ''Call mum''), Inr (PStr ''Call mum''), Inr (PStr ''Call mum'')],
          ?n\<lparr>summary_attr := PStr ''Call mum'', message := PStr ''Call dad''\<rparr>)"
    by (simp add: numeral_3_eq_3)
  from summary_fixed_after_first_read [OF g, where k = 3] f blank
  have b: "read_summary relay_env 3 (?b\<lparr>summary_attr := PStr []\<rparr>)
       = ([Inr (PStr []), Inr (PStr []), Inr (PStr [])], ?b\<lparr>summary_attr := PStr []\<rparr>)
     \<and> count_computed relay_env 3 ?b = 3"
    by (simp add: numeral_3_eq_3)
  show ?thesis
    using h g t f a b first blank by simp
qed

text \<open>
  The read that raises is outside the amended statement. Under an encoder that
  accepts strings only, the first read of the seven-word reminder raises, with the
  slice of line 96 left in \<^verbatim>\<open>_summary\<close>, and the second read returns that list.
\<close>

lemma summary_after_failed_read:
  "summary relay_env (reminder due sc) =
     (Inl AttributeError,
      (reminder due sc)
        \<lparr>summary_attr := PList [PStr ''Hello'', PStr ''world,'', PStr ''this'', PStr ''is'']\<rparr>)
   \<and> fst (summary relay_env (snd (summary relay_env (reminder due sc)))) =
       Inr (PList [PStr ''Hello'', PStr ''world,'', PStr ''this'', PStr ''is''])"
  by (simp add: summary_def summary_words_def reminder_def relay_env_def)

text \<open>A message of fewer than five pieces is handed to the encoder whole.\<close>

lemma summary_short_message:
  assumes "message n = PStr s" and "\<not> truthy (summary_attr n)" and "length (split_sp s) < 5"
  shows "fst (summary ev n) = ascii_encode ev (PStr s)"
  using assms by (auto simp: summary_def summary_words_def split: sum.splits bool.splits)

text \<open>
  C3. The message of the spec's scenario, \<^verbatim>\<open>"Hello world, this is a test message"\<close>,
  has seven tokens. Reading \<^verbatim>\<open>summary\<close> without an explicit summary does not yield
  the string \<^verbatim>\<open>"Hello world, this is"\<close>: the property assigns the slice
  \<^verbatim>\<open>message_words[0:4]\<close>, a list of four strings that is never joined, and hands that
  list to \<^verbatim>\<open>tools.ascii_encode\<close>. The read returns whatever the encoder makes of a
  list; when the encoder raises, the list stays in \<^verbatim>\<open>_summary\<close>. Under an encoder
  that accepts strings only, the read raises.
\<close>

theorem summary_of_five_words_is_a_list:
  "summary ev (reminder due sc) =
     (case ascii_encode ev (PList [PStr ''Hello'', PStr ''world,'', PStr ''this'', PStr ''is'']) of
        Inl e \<Rightarrow>
          (Inl e, (reminder due sc)
             \<lparr>summary_attr := PList [PStr ''Hello'', PStr ''world,'', PStr ''this'', PStr ''is'']\<rparr>)
      | Inr s \<Rightarrow> (Inr s, (reminder due sc)\<lparr>summary_attr := s\<rparr>))
   \<and> fst (summary relay_env (reminder due sc)) = Inl AttributeError"
  by (simp add: summary_def summary_words_def reminder_def relay_env_def split: sum.splits)

section \<open>Sending\<close>

text \<open>
  C5. For a notification whose scope is not \<^verbatim>\<open>"email"\<close>, the only registered channel,
  and whose user record answers \<^verbatim>\<open>user_data["username"]\<close> (the log line of
  \<^verbatim>\<open>send\<close> reads it), \<^verbatim>\<open>send\<close> logs the error about the scope and returns
  normally: no exception leaves it, no channel is called, and the notification is
  unchanged.
\<close>

theorem send_unknown_scope_logs_and_returns:
  assumes "scope n \<noteq> ''email''"
    and "py_getitem (user_data n) ''username'' = Inr u"
  shows "send ev n =
           (None, n,
            [LogRecord INFO ''Sending notification to user {}'' [Value u],
             LogRecord ERROR ''Couldn't find a notification method for notification scope {}''
               [Value (PStr (scope n))]])"
  using assms by (simp add: send_def)

theorem send_unknown_scope_logs_and_returns_witness:
  "scope (reminder 1400 ''sms'') \<noteq> ''email''
   \<and> py_getitem (user_data (reminder 1400 ''sms'')) ''username'' = Inr (PStr ''will'')
   \<and> send relay_env (reminder 1400 ''sms'') =
           (None, reminder 1400 ''sms'',
            [LogRecord INFO ''Sending notification to user {}'' [Value (PStr ''will'')],
             LogRecord ERROR ''Couldn't find a notification method for notification scope {}''
               [Value (PStr ''sms'')]])"
proof -
  have a: "scope (reminder 1400 ''sms'') \<noteq> ''email''"
    by (simp add: reminder_def)
  have b: "py_getitem (user_data (reminder 1400 ''sms'')) ''username'' = Inr (PStr ''will'')"
    by (simp add: reminder_def will_user_def)
  have c: "scope (reminder 1400 ''sms'') = ''sms''"
    by (simp add: reminder_def)
  show ?thesis
    using a b send_unknown_scope_logs_and_returns [OF a b, of relay_env] by (simp add: c)
qed

section \<open>Facts about the dictionary and the encoder\<close>

lemma map_of_dict_update: "map_of (dict_update k v d) k = Some v"
  by (induction d) auto



lemma map_of_dict_del: "map_of (dict_del k d) k = None"
  by (induction d) (simp_all add: dict_del_def)


lemma encode_text_append: "encode_text f (a @ b) = encode_text f a @ encode_text f b"
  by (simp add: encode_text_def)

lemma encode_text_ascii: "list_all is_ascii s \<Longrightarrow> encode_text f s = s"
  by (induction s) (simp_all add: encode_text_def)

lemma encode_text_is_ascii:
  assumes "\<forall>c. list_all is_ascii (f c)"
  shows "list_all is_ascii (encode_text f s)"
  using assms by (induction s) (simp_all add: encode_text_def)

lemma prefix_ascii: "list_all is_ascii ''W.I.L.L - ''"
  by (simp add: is_ascii_def)

lemma encode_prefixed:
  "encode_text f (''W.I.L.L - '' @ s) = ''W.I.L.L - '' @ encode_text f s"
  using encode_text_append [of f "''W.I.L.L - ''" s] encode_text_ascii [OF prefix_ascii, of f]
  by simp

lemmas run_defs = notify_def pull_notificatons_def pull_row_def Notification_init_def
  deliver_def send_def email_def summary_def summary_words_def time_reached_def
  open_session_def close_session_def commit_rows_def emit_def dict_del_def Let_def
  handler_init_def relay_env_def failing_env_def relay_down_env_def will_user_def
  reminder_def short_reminder_def stored_row_def empty_handler_def busy_handler_def
  blank_reminder_def other_reminder_def crowded_handler_def
  encode_text_def is_ascii_def

section \<open>Registering a notification\<close>








lemma notify_short_reminder_near:
  "notify relay_env 1000 (short_reminder 1200 ''email'') empty_handler =
     (None, empty_handler\<lparr>notifications := [(PUuid 7, short_reminder 1200 ''email'')]\<rparr>)"
  by (simp add: run_defs)

lemma notify_short_reminder_far:
  "notify relay_env 1000 (short_reminder 1400 ''email'') empty_handler =
     (None, empty_handler
        \<lparr>notifications :=
           [(PUuid 7, (short_reminder 1400 ''email'')\<lparr>summary_attr := PStr ''Call mum''\<rparr>)],
         store := \<lparr>rows = [stored_row], open_sessions = 0\<rparr>\<rparr>)"
  by (simp add: run_defs)


lemma notify_long_message_not_persisted:
  "notify relay_env 1000 (reminder 1400 ''email'') empty_handler =
     (Some AttributeError,
      empty_handler
        \<lparr>notifications :=
           [(PUuid 7, (reminder 1400 ''email'')
              \<lparr>summary_attr := PList [PStr ''Hello'', PStr ''world,'', PStr ''this'', PStr ''is'']\<rparr>)],
         store := \<lparr>rows = [], open_sessions = 1\<rparr>\<rparr>)"
  by (simp add: run_defs)









section \<open>Sessions of the database\<close>

lemma notify_sessions_returned:
  "fst (notify ev now n h) = None \<Longrightarrow>
     open_sessions (store (snd (notify ev now n h))) = open_sessions (store h)"
  by (auto simp: notify_def Let_def open_session_def close_session_def commit_rows_def
      split: option.splits sum.splits prod.splits if_splits)

lemma notify_sessions_raised:
  "fst (notify ev now n h) = Some e \<Longrightarrow> hashable (uid n) \<Longrightarrow> 300 < trigger_time n - now \<Longrightarrow>
   db_fault ev OpenSession = None \<Longrightarrow>
     open_sessions (store (snd (notify ev now n h))) = Suc (open_sessions (store h))"
  by (auto simp: notify_def Let_def open_session_def close_session_def commit_rows_def
      split: option.splits sum.splits prod.splits if_splits)

lemma pull_row_store: "store (snd (pull_row ev now fresh r h)) = store h"
  by (simp add: pull_row_def Let_def split: sum.splits)

lemma pull_rows_store: "store (snd (pull_rows ev clock fresh k rs h)) = store h"
proof (induction rs arbitrary: k h)
  case Nil
  then show ?case by simp
next
  case (Cons r rs)
  show ?case
  proof (cases "pull_row ev (clock k) (fresh k) r h")
    case (Pair x h1)
    then have "store h1 = store h"
      using pull_row_store [of ev "clock k" "fresh k" r h] by simp
    with Pair Cons.IH [of "Suc k" h1] show ?thesis
      by (cases x) simp_all
  qed
qed

lemma pull_sessions_returned:
  "fst (pull_notificatons ev clock fresh h) = None \<Longrightarrow>
     open_sessions (store (snd (pull_notificatons ev clock fresh h))) = open_sessions (store h)"
  using pull_rows_store [of ev clock fresh 0 "rows (store (open_session h))" "open_session h"]
  by (auto simp: pull_notificatons_def Let_def open_session_def close_session_def emit_def
      split: option.splits prod.splits if_splits)

lemma pull_sessions_raised:
  "fst (pull_notificatons ev clock fresh h) = Some e \<Longrightarrow> db_fault ev OpenSession = None \<Longrightarrow>
     open_sessions (store (snd (pull_notificatons ev clock fresh h)))
       = Suc (open_sessions (store h))"
  using pull_rows_store [of ev clock fresh 0 "rows (store (open_session h))" "open_session h"]
  by (auto simp: pull_notificatons_def Let_def open_session_def close_session_def emit_def
      split: option.splits prod.splits if_splits)

text \<open>
  C7, as the claim states it, fails. When \<^verbatim>\<open>session.add\<close> or \<^verbatim>\<open>session.commit\<close>
  raises in \<^verbatim>\<open>notify\<close>, or the query raises in the startup load, the exception
  leaves the method and the session that was opened stays open: the source has no
  \<^verbatim>\<open>try\<close>/\<^verbatim>\<open>finally\<close> and no \<^verbatim>\<open>with\<close> around its sessions.
\<close>

theorem session_left_open_counterexample:
  "open_sessions (store empty_handler) = 0
   \<and> notify (failing_env Add) 1000 (short_reminder 1400 ''email'') empty_handler
       = (Some (External ''database is down''),
          empty_handler
            \<lparr>notifications :=
               [(PUuid 7, (short_reminder 1400 ''email'')\<lparr>summary_attr := PStr ''Call mum''\<rparr>)],
             store := \<lparr>rows = [], open_sessions = 1\<rparr>\<rparr>)
   \<and> notify (failing_env Commit) 1000 (short_reminder 1400 ''email'') empty_handler
       = (Some (External ''database is down''),
          empty_handler
            \<lparr>notifications :=
               [(PUuid 7, (short_reminder 1400 ''email'')\<lparr>summary_attr := PStr ''Call mum''\<rparr>)],
             store := \<lparr>rows = [], open_sessions = 1\<rparr>\<rparr>)
   \<and> handler_init (failing_env Query) (\<lambda>k. 2000) (\<lambda>k. 9) \<lparr>rows = [stored_row], open_sessions = 0\<rparr>
       = (Some (External ''database is down''),
          empty_handler\<lparr>store := \<lparr>rows = [stored_row], open_sessions = 1\<rparr>\<rparr>)"
  by (simp add: run_defs)

text \<open>
  C7, amended. A session opened by \<^verbatim>\<open>notify\<close> or by the startup load is closed when
  the method returns normally: the number of open sessions is then what it was before
  the call. There is no cleanup on a failure path: when the method raises after it
  has opened its session, the session is still open.
\<close>

theorem sessions_closed_on_return_only:
  "(fst (notify ev now n h) = None \<longrightarrow>
      open_sessions (store (snd (notify ev now n h))) = open_sessions (store h))
   \<and> (fst (pull_notificatons ev clock fresh h) = None \<longrightarrow>
      open_sessions (store (snd (pull_notificatons ev clock fresh h))) = open_sessions (store h))
   \<and> (fst (notify ev now n h) = Some e \<and> hashable (uid n) \<and> 300 < trigger_time n - now
        \<and> db_fault ev OpenSession = None \<longrightarrow>
      open_sessions (store (snd (notify ev now n h))) = Suc (open_sessions (store h)))
   \<and> (fst (pull_notificatons ev clock fresh h) = Some e \<and> db_fault ev OpenSession = None \<longrightarrow>
      open_sessions (store (snd (pull_notificatons ev clock fresh h)))
        = Suc (open_sessions (store h)))"
  using notify_sessions_returned [of ev now n h] pull_sessions_returned [of ev clock fresh h]
    notify_sessions_raised [of ev now n h e] pull_sessions_raised [of ev clock fresh h e]
  by blast

lemma pull_stored_row:
  "pull_notificatons relay_env (\<lambda>k. 2000) (\<lambda>k. 9)
      (empty_handler\<lparr>store := \<lparr>rows = [stored_row], open_sessions = 0\<rparr>\<rparr>)
   = (None, empty_handler
        \<lparr>notifications :=
           [(PUuid 7,
             \<lparr> title = PStr ''W.I.L.L - W.I.L.L - Reminder'', message = PStr ''Call mum'',
               scope = ''email'', db = PStr ''will'', summary_attr = PUuid 7,
               created = PDatetime 2000, uid = PDatetime 1000, trigger_time = 1400,
               user_data = PStr ''Call mum'' \<rparr>)],
         store := \<lparr>rows = [stored_row], open_sessions = 0\<rparr>\<rparr>)"
  by (simp add: run_defs)

lemma pull_query_fails:
  "pull_notificatons (failing_env Query) (\<lambda>k. 2000) (\<lambda>k. 9)
      (empty_handler\<lparr>store := \<lparr>rows = [stored_row], open_sessions = 0\<rparr>\<rparr>)
   = (Some (External ''database is down''),
      empty_handler\<lparr>store := \<lparr>rows = [stored_row], open_sessions = 1\<rparr>\<rparr>)"
  by (simp add: run_defs)

lemma notify_add_fails:
  "notify (failing_env Add) 1000 (short_reminder 1400 ''email'') empty_handler
       = (Some (External ''database is down''),
          empty_handler
            \<lparr>notifications :=
               [(PUuid 7, (short_reminder 1400 ''email'')\<lparr>summary_attr := PStr ''Call mum''\<rparr>)],
             store := \<lparr>rows = [], open_sessions = 1\<rparr>\<rparr>)"
  by (simp add: run_defs)

theorem sessions_closed_on_return_only_witness:
  "fst (notify relay_env 1000 (short_reminder 1400 ''email'') empty_handler) = None
   \<and> open_sessions (store (snd (notify relay_env 1000 (short_reminder 1400 ''email'')
        empty_handler))) = 0
   \<and> fst (pull_notificatons relay_env (\<lambda>k. 2000) (\<lambda>k. 9)
        (empty_handler\<lparr>store := \<lparr>rows = [stored_row], open_sessions = 0\<rparr>\<rparr>)) = None
   \<and> open_sessions (store (snd (pull_notificatons relay_env (\<lambda>k. 2000) (\<lambda>k. 9)
        (empty_handler\<lparr>store := \<lparr>rows = [stored_row], open_sessions = 0\<rparr>\<rparr>)))) = 0
   \<and> fst (notify (failing_env Add) 1000 (short_reminder 1400 ''email'') empty_handler)
       = Some (External ''database is down'')
   \<and> hashable (uid (short_reminder 1400 ''email''))
   \<and> 300 < trigger_time (short_reminder 1400 ''email'') - 1000
   \<and> db_fault (failing_env Add) OpenSession = None
   \<and> open_sessions (store (snd (notify (failing_env Add) 1000 (short_reminder 1400 ''email'')
        empty_handler))) = 1
   \<and> fst (pull_notificatons (failing_env Query) (\<lambda>k. 2000) (\<lambda>k. 9)
        (empty_handler\<lparr>store := \<lparr>rows = [stored_row], open_sessions = 0\<rparr>\<rparr>))
       = Some (External ''database is down'')
   \<and> db_fault (failing_env Query) OpenSession = None
   \<and> open_sessions (store (snd (pull_notificatons (failing_env Query) (\<lambda>k. 2000) (\<lambda>k. 9)
        (empty_handler\<lparr>store := \<lparr>rows = [stored_row], open_sessions = 0\<rparr>\<rparr>)))) = 1"
proof -
  let ?h = "empty_handler\<lparr>store := \<lparr>rows = [stored_row], open_sessions = 0\<rparr>\<rparr>"
  let ?n = "short_reminder 1400 ''email''"
  have a: "fst (notify relay_env 1000 ?n empty_handler) = None"
    by (simp add: notify_short_reminder_far)
  have b: "fst (pull_notificatons relay_env (\<lambda>k. 2000) (\<lambda>k. 9) ?h) = None"
    by (simp add: pull_stored_row)
  have c: "fst (notify (failing_env Add) 1000 ?n empty_handler)
             = Some (External ''database is down'')"
    by (simp add: notify_add_fails)
  have d: "fst (pull_notificatons (failing_env Query) (\<lambda>k. 2000) (\<lambda>k. 9) ?h)
             = Some (External ''database is down'')"
    by (simp add: pull_query_fails)
  have k: "hashable (uid ?n)" "300 < trigger_time ?n - 1000"
    by (simp_all add: short_reminder_def reminder_def)
  have o: "db_fault (failing_env Add) OpenSession = None"
    "db_fault (failing_env Query) OpenSession = None"
    by (simp_all add: failing_env_def relay_env_def)
  have z: "open_sessions (store empty_handler) = 0" "open_sessions (store ?h) = 0"
    by (simp_all add: empty_handler_def)
  note ok = sessions_closed_on_return_only
      [where ev = relay_env and now = 1000 and n = ?n and h = empty_handler]
  note ok_pull = sessions_closed_on_return_only
      [where ev = relay_env and clock = "\<lambda>k. 2000" and fresh = "\<lambda>k. 9" and h = ?h]
  note bad = sessions_closed_on_return_only
      [where ev = "failing_env Add" and now = 1000 and n = ?n and h = empty_handler
         and e = "External ''database is down''"]
  note bad_pull = sessions_closed_on_return_only
      [where ev = "failing_env Query" and clock = "\<lambda>k. 2000" and fresh = "\<lambda>k. 9" and h = ?h
         and e = "External ''database is down''"]
  have a': "open_sessions (store (snd (notify relay_env 1000 ?n empty_handler))) = 0"
    using ok a z by simp
  have b': "open_sessions (store (snd (pull_notificatons relay_env (\<lambda>k. 2000) (\<lambda>k. 9) ?h))) = 0"
    using ok_pull b z by simp
  have c': "open_sessions (store (snd (notify (failing_env Add) 1000 ?n empty_handler))) = 1"
    using bad c k o z by simp
  have d': "open_sessions (store (snd (pull_notificatons (failing_env Query) (\<lambda>k. 2000)
      (\<lambda>k. 9) ?h))) = 1"
    using bad_pull d o z by simp
  show ?thesis
    using a a' b b' c c' d d' k o by simp
qed

section \<open>The startup load\<close>

text \<open>What the reconstructed notification of a row holds, attribute by attribute.\<close>

lemma pull_row_fields:
  assumes "pull_row ev now fresh r h = (None, h')"
    and "map_of (notifications h') (col_uid r) = Some n"
  shows "summary_attr n = col_uid r"
    and "uid n = (if truthy (col_created r) then col_created r else PUuid fresh)"
    and "created n = PDatetime now"
    and "user_data n = col_summary r"
    and "db n = col_user_id r"
    and "trigger_time n = col_trigger_time r"
    and "scope n = col_scope r"
  using assms
  by (auto simp: pull_row_def Notification_init_def Let_def map_of_dict_update
      split: sum.splits if_splits)

text \<open>Every row is loaded, whatever its trigger time: a row is never skipped.\<close>

lemma pull_row_loads:
  assumes "pull_row ev now fresh r h = (None, h')"
  shows "col_uid r \<in> fst ` set (notifications h')"
proof -
  have "map_of (notifications h') (col_uid r) \<noteq> None"
    using assms
    by (auto simp: pull_row_def Let_def map_of_dict_update split: sum.splits if_splits)
  then show ?thesis
    by (simp add: map_of_eq_None_iff)
qed

text \<open>
  C1. The startup load reads the row that \<^verbatim>\<open>notify\<close> wrote for
  \<open>short_reminder 1400 ''email''\<close> (uid 7, created at 1000, summary
  \<^verbatim>\<open>"Call mum"\<close>, user \<^verbatim>\<open>"will"\<close>) and puts a notification into the live set
  under the row's uid. The row's fields do not reach the corresponding attributes:
  the call of the constructor leaves out the argument \<^verbatim>\<open>db\<close>, so the row's uid
  becomes the summary, the row's creation time becomes the uid, the row's summary
  becomes \<^verbatim>\<open>user_data\<close>, the user id becomes \<^verbatim>\<open>db\<close>, and \<^verbatim>\<open>created\<close> is the
  time of the load (2000).
\<close>

theorem startup_load_misplaces_row_fields:
  "handler_init relay_env (\<lambda>k. 2000) (\<lambda>k. 9) \<lparr>rows = [stored_row], open_sessions = 0\<rparr>
   = (None,
      \<lparr> running = True,
        notifications =
          [(PUuid 7,
            \<lparr> title = PStr ''W.I.L.L - W.I.L.L - Reminder'', message = PStr ''Call mum'',
              scope = ''email'', db = PStr ''will'', summary_attr = PUuid 7,
              created = PDatetime 2000, uid = PDatetime 1000, trigger_time = 1400,
              user_data = PStr ''Call mum'' \<rparr>)],
        store = \<lparr>rows = [stored_row], open_sessions = 0\<rparr>,
        logged = [] \<rparr>)"
  by (simp add: run_defs)

section \<open>The delivery thread\<close>

lemma deliver_due:
  assumes "time_reached now (snd entry)"
  shows "fst (deliver ev now entry h) \<noteq> None"
  using assms by (auto simp: deliver_def Let_def split: prod.splits sum.splits)

lemma deliver_not_due:
  assumes "deliver ev now entry h = (None, h1)"
  shows "h1 = h"
  using assms by (auto simp: deliver_def Let_def split: prod.splits sum.splits if_splits)

lemma deliver_store: "store (snd (deliver ev now entry h)) = store h"
  by (auto simp: deliver_def Let_def emit_def split: prod.splits sum.splits option.splits)

lemma scan_store: "store (snd (scan ev clock k entries h)) = store h"
proof (induction entries arbitrary: k h)
  case Nil
  then show ?case by simp
next
  case (Cons entry entries)
  show ?case
  proof (cases "deliver ev (clock k) entry h")
    case (Pair x h1)
    then have "store h1 = store h"
      using deliver_store [of ev "clock k" entry h] by simp
    with Pair Cons.IH [of "Suc k" h1] show ?thesis
      by (cases x) simp_all
  qed
qed

text \<open>The delivery thread never changes the database, however long it runs.\<close>

lemma wait_notifications_store:
  "store (snd (wait_notifications ev clock i fuel h)) = store h"
proof (induction fuel arbitrary: i h)
  case 0
  then show ?case by simp
next
  case (Suc fuel)
  show ?case
  proof (cases "scan ev (clock i) 0 (notifications h) h")
    case (Pair x h1)
    then have "store h1 = store h"
      using scan_store [of ev "clock i" 0 "notifications h" h] by simp
    with Pair Suc.IH [of "Suc i" h1] Suc.IH [of "Suc i" h] show ?thesis
      by (cases x) simp_all
  qed
qed

lemma scan_due:
  assumes "j < length entries" and "time_reached (clock (k + j)) (snd (entries ! j))"
  shows "fst (scan ev clock k entries h) \<noteq> None"
  using assms
proof (induction entries arbitrary: k j h)
  case Nil
  then show ?case by simp
next
  case (Cons entry entries)
  show ?case
  proof (cases "deliver ev (clock k) entry h")
    case (Pair x h1)
    show ?thesis
    proof (cases x)
      case (Some e)
      with Pair show ?thesis by simp
    next
      case None
      have "j \<noteq> 0"
      proof
        assume "j = 0"
        with Cons.prems have "time_reached (clock k) (snd entry)" by simp
        from deliver_due [OF this, of ev h] Pair None show False by simp
      qed
      then obtain j' where j: "j = Suc j'"
        by (cases j) auto
      with Cons.prems have "j' < length entries"
        and "time_reached (clock (Suc k + j')) (snd (entries ! j'))"
        by simp_all
      from Cons.IH [OF this, of h1] Pair None show ?thesis by simp
    qed
  qed
qed

text \<open>
  C2. The handler holds \<open>short_reminder 1400 ''email''\<close> in its live set and its row
  in the database; the clock reads 1500, so the entry is due. One iteration of the
  delivery loop sends it, removes it from the live set, and then ends the thread with
  the \<^verbatim>\<open>AttributeError\<close> of \<^verbatim>\<open>self.graph\<close>: the row is still in the database. This
  is so when the mail relay accepts the message and when it refuses it (the refusal
  is logged).
\<close>

theorem delivery_leaves_row_in_database:
  "rows (store busy_handler) = [stored_row]
   \<and> wait_notifications relay_env (\<lambda>i k. 1500) 0 (Suc 0) busy_handler
       = (Died AttributeError,
          \<lparr> running = True, notifications = [],
            store = \<lparr>rows = [stored_row], open_sessions = 0\<rparr>,
            logged =
              [LogRecord INFO ''Sending notification for user {}'' [Value (PStr ''will'')],
               LogRecord INFO ''Sending notification to user {}'' [Value (PStr ''will'')]] \<rparr>)
   \<and> wait_notifications relay_down_env (\<lambda>i k. 1500) 0 (Suc 0) busy_handler
       = (Died AttributeError,
          \<lparr> running = True, notifications = [],
            store = \<lparr>rows = [stored_row], open_sessions = 0\<rparr>,
            logged =
              [LogRecord INFO ''Sending notification for user {}'' [Value (PStr ''will'')],
               LogRecord INFO ''Sending notification to user {}'' [Value (PStr ''will'')],
               LogRecord ERROR
                 ''Couldn't send notification to user {0}. Send method raised error with args {1}''
                 [Value (PStr ''will''), ExnArgs (External ''connection refused'')]] \<rparr>)"
  by (simp add: run_defs)

text \<open>
  C6. The delivery thread does not survive a due notification. Whenever the handler
  is running and some entry of the live set is due when the scan reaches it, the
  iteration of the loop ends the thread with an exception that nothing handles (the
  \<^verbatim>\<open>AttributeError\<close> of \<^verbatim>\<open>self.graph\<close>, or the exception of reading
  \<^verbatim>\<open>user_data["username"]\<close> for the log line outside the \<^verbatim>\<open>try\<close>), for every
  behaviour of the collaborators and however much longer the thread would run.
\<close>

theorem delivery_thread_dies_on_due_notification:
  assumes "running h" and "j < length (notifications h)"
    and "time_reached (clock i j) (snd (notifications h ! j))"
  shows "\<exists>e. fst (wait_notifications ev clock i (Suc fuel) h) = Died e"
proof -
  have "fst (scan ev (clock i) 0 (notifications h) h) \<noteq> None"
    using scan_due [of j "notifications h" "clock i" 0 ev h] assms(2,3) by simp
  then obtain e h1 where "scan ev (clock i) 0 (notifications h) h = (Some e, h1)"
    by (cases "scan ev (clock i) 0 (notifications h) h") auto
  moreover have "notifications h \<noteq> []"
    using assms(2) by auto
  ultimately have "fst (wait_notifications ev clock i (Suc fuel) h) = Died e"
    using assms(1) by simp
  then show ?thesis ..
qed

theorem delivery_thread_dies_on_due_notification_witness:
  "running busy_handler
   \<and> 0 < length (notifications busy_handler)
   \<and> time_reached 1500 (snd (notifications busy_handler ! 0))
   \<and> (\<exists>e. fst (wait_notifications relay_env (\<lambda>i k. 1500) 0 (Suc 7) busy_handler) = Died e)"
proof -
  have a: "running busy_handler"
    by (simp add: busy_handler_def empty_handler_def)
  have b: "0 < length (notifications busy_handler)"
    by (simp add: busy_handler_def empty_handler_def)
  have c: "time_reached ((\<lambda>i k. 1500) (0::nat) (0::nat)) (snd (notifications busy_handler ! 0))"
    by (simp add: busy_handler_def empty_handler_def time_reached_def short_reminder_def
        reminder_def)
  have d: "\<exists>e. fst (wait_notifications relay_env (\<lambda>i k. 1500) 0 (Suc 7) busy_handler) = Died e"
    by (rule delivery_thread_dies_on_due_notification [OF a b c])
  from a b c d show ?thesis by blast
qed

text \<open>
  A notification that the startup load has reconstructed carries the row's summary as
  its \<^verbatim>\<open>user_data\<close>. When it is due, the log line of the loop fails on
  \<^verbatim>\<open>user_data["username"]\<close> before the \<^verbatim>\<open>try\<close>: the thread ends and the entry
  stays in the live set.
\<close>

lemma reloaded_entry_ends_thread:
  "wait_notifications relay_env (\<lambda>i k. 2500) 0 (Suc fuel)
     (snd (handler_init relay_env (\<lambda>k. 2000) (\<lambda>k. 9) \<lparr>rows = [stored_row], open_sessions = 0\<rparr>))
   = (Died TypeError,
      snd (handler_init relay_env (\<lambda>k. 2000) (\<lambda>k. 9) \<lparr>rows = [stored_row], open_sessions = 0\<rparr>))"
  by (simp add: run_defs)

section \<open>The title\<close>

text \<open>
  C10. For an encoder that keeps ASCII text and replaces every other character by
  ASCII text (\<open>encode_text f\<close>), a notification constructed with the title \<open>t\<close>
  stores the encoding of \<^verbatim>\<open>"W.I.L.L - " + t\<close>, which begins with \<^verbatim>\<open>"W.I.L.L - "\<close>.
  \<^verbatim>\<open>notify\<close> writes this stored title into the row (lemma \<open>notify_far\<close>). The startup
  load passes the row's title to the constructor again, so the reconstructed
  notification has the prefix twice, and its title differs from the title that was
  persisted.
\<close>

theorem title_prefixed_again_on_reload:
  assumes enc: "\<forall>s. ascii_encode ev (PStr s) = Inr (PStr (encode_text f s))"
    and asc: "\<forall>c. list_all is_ascii (f c)"
    and init: "Notification_init ev now fresh m (PStr t) due sc d u s i c = Inr n"
    and row: "col_title r = title n"
    and reload: "pull_row ev now' fresh' r h = (None, h')"
    and live: "map_of (notifications h') (col_uid r) = Some n'"
  shows "ascii_encode ev (PStr (''W.I.L.L - '' @ t)) = Inr (title n)
     \<and> title n = PStr (''W.I.L.L - '' @ encode_text f t)
     \<and> title n' = PStr (''W.I.L.L - W.I.L.L - '' @ encode_text f t)
     \<and> title n' \<noteq> col_title r"
proof -
  have t1: "title n = PStr (''W.I.L.L - '' @ encode_text f t)"
    using init enc encode_prefixed [of f t]
    by (auto simp: Notification_init_def split: sum.splits)
  have e1: "ascii_encode ev (PStr (''W.I.L.L - '' @ t)) = Inr (title n)"
    using init by (auto simp: Notification_init_def split: sum.splits)
  have idem: "encode_text f (encode_text f t) = encode_text f t"
    using encode_text_ascii [OF encode_text_is_ascii [OF asc]] .
  have enc2: "encode_text f (''W.I.L.L - '' @ ''W.I.L.L - '' @ encode_text f t)
      = ''W.I.L.L - '' @ ''W.I.L.L - '' @ encode_text f t"
    using encode_prefixed [of f "''W.I.L.L - '' @ encode_text f t"]
      encode_prefixed [of f "encode_text f t"] idem by simp
  obtain n2 where n2: "h' = h\<lparr>notifications := dict_update (col_uid r) n2 (notifications h)\<rparr>"
     and t2: "title n2 = PStr (''W.I.L.L - '' @ ''W.I.L.L - '' @ encode_text f t)"
    using reload row t1 enc enc2
    by (auto simp: pull_row_def Notification_init_def Let_def split: sum.splits if_splits)
  from n2 live have "n' = n2"
    by (simp add: map_of_dict_update)
  with t2 have t3: "title n' = PStr (''W.I.L.L - W.I.L.L - '' @ encode_text f t)"
    by simp
  have "title n' \<noteq> col_title r"
    using t3 t1 row by simp
  with e1 t1 t3 show ?thesis by simp
qed

lemma pull_row_stored_row:
  "pull_row relay_env 2000 9 stored_row empty_handler =
     (None, empty_handler
        \<lparr>notifications :=
           [(PUuid 7,
             \<lparr> title = PStr ''W.I.L.L - W.I.L.L - Reminder'', message = PStr ''Call mum'',
               scope = ''email'', db = PStr ''will'', summary_attr = PUuid 7,
               created = PDatetime 2000, uid = PDatetime 1000, trigger_time = 1400,
               user_data = PStr ''Call mum'' \<rparr>)]\<rparr>)"
  by (simp add: run_defs)

lemma init_short_reminder:
  "Notification_init relay_env 1000 7 (PStr ''Call mum'') (PStr ''Reminder'') 1400 ''email''
      PNone will_user PNone PNone PNone = Inr (short_reminder 1400 ''email'')"
  by (simp add: run_defs)

theorem title_prefixed_again_on_reload_witness:
  "(\<forall>s. ascii_encode relay_env (PStr s) = Inr (PStr (encode_text (\<lambda>c. []) s)))
   \<and> (\<forall>c::char. list_all is_ascii [])
   \<and> Notification_init relay_env 1000 7 (PStr ''Call mum'') (PStr ''Reminder'') 1400 ''email''
        PNone will_user PNone PNone PNone = Inr (short_reminder 1400 ''email'')
   \<and> col_title stored_row = title (short_reminder 1400 ''email'')
   \<and> title (short_reminder 1400 ''email'') = PStr ''W.I.L.L - Reminder''
   \<and> title (the (map_of (notifications (snd (pull_row relay_env 2000 9 stored_row
        empty_handler))) (PUuid 7))) = PStr ''W.I.L.L - W.I.L.L - Reminder''
   \<and> title (the (map_of (notifications (snd (pull_row relay_env 2000 9 stored_row
        empty_handler))) (PUuid 7))) \<noteq> col_title stored_row"
proof -
  let ?n' = "\<lparr> title = PStr ''W.I.L.L - W.I.L.L - Reminder'', message = PStr ''Call mum'',
               scope = ''email'', db = PStr ''will'', summary_attr = PUuid 7,
               created = PDatetime 2000, uid = PDatetime 1000, trigger_time = 1400,
               user_data = PStr ''Call mum'' \<rparr>"
  let ?h' = "empty_handler\<lparr>notifications := [(PUuid 7, ?n')]\<rparr>"
  have enc: "\<forall>s. ascii_encode relay_env (PStr s) = Inr (PStr (encode_text (\<lambda>c. []) s))"
    by (simp add: relay_env_def)
  have asc: "\<forall>c::char. list_all is_ascii ((\<lambda>c. []) c)"
    by simp
  have row: "col_title stored_row = title (short_reminder 1400 ''email'')"
    by (simp add: stored_row_def short_reminder_def reminder_def)
  have live: "map_of (notifications ?h') (col_uid stored_row) = Some ?n'"
    by (simp add: stored_row_def)
  have found: "the (map_of (notifications (snd (pull_row relay_env 2000 9 stored_row
        empty_handler))) (PUuid 7)) = ?n'"
    by (simp add: pull_row_stored_row)
  have enc_title: "encode_text (\<lambda>c. []) ''Reminder'' = ''Reminder''"
    by (simp add: encode_text_def is_ascii_def)
  from title_prefixed_again_on_reload
    [OF enc asc init_short_reminder row pull_row_stored_row live]
  show ?thesis
    using enc asc init_short_reminder row found by (simp add: enc_title)
qed

end
